theory Spec2Isabelle
  imports Main "HOL-Library.Sublist"
begin

section \<open>The Avatar Processing Service templates\<close>

text \<open>
  The repository holds two coding-challenge templates of one service, \<^verbatim>\<open>src/template.js\<close>
  and \<^verbatim>\<open>src/go/template.go\<close>, the problem statement and an interviewer guide. The
  constructors of the job record are written out; the four methods of the service are
  declared, documented and left as \<^verbatim>\<open>TODO\<close>: in JavaScript their bodies are empty, in Go
  they return the zero values \<^verbatim>\<open>nil, nil\<close> and \<^verbatim>\<open>""\<close>. The definitions below are these
  bodies as they stand.

  Parameters are renamed where a record field already owns the source's name: \<open>jid\<close> for
  \<^verbatim>\<open>id\<close>, \<^verbatim>\<open>jobId\<close> and \<^verbatim>\<open>jobID\<close>, \<open>uid\<close> for \<^verbatim>\<open>userId\<close> and \<^verbatim>\<open>userID\<close>, \<open>st\<close> for \<^verbatim>\<open>status\<close>,
  \<open>inp\<close> for \<^verbatim>\<open>inputData\<close>, \<open>out\<close> for \<^verbatim>\<open>outputUrl\<close>, \<open>created\<close> for \<^verbatim>\<open>createdAt\<close> and
  \<open>err\<close> for \<^verbatim>\<open>errorMessage\<close>. The field \<^verbatim>\<open>id\<close> is \<open>id'\<close>.
\<close>

subsection \<open>The moderation endpoint\<close>

text \<open>
  The endpoint is outside the service. Both templates document it in their header
  comment: a POST of \<^verbatim>\<open>{"content": ..., "user_id": ...}\<close> answered by
  \<^verbatim>\<open>{"approved": ..., "reason": ...}\<close>, and their implementation notes list what can go
  wrong: API timeout, API returns error status, network issues, invalid response format.
  The operations take the endpoint as an argument, a function from the request to what
  comes back, so that a statement can range over its answers.
\<close>

datatype ApiOutcome =
    ApiResponse bool "string option"
  | ApiTimeout
  | ApiErrorStatus nat
  | NetworkIssue
  | InvalidResponseFormat

type_synonym ModerationApi = "string \<Rightarrow> string \<Rightarrow> ApiOutcome"

text \<open>The two answers of the problem statement, and a timeout.\<close>

definition approvingApi :: ModerationApi where
  "approvingApi content uid = ApiResponse True (Some ''Content appears safe'')"

definition rejectingApi :: ModerationApi where
  "rejectingApi content uid = ApiResponse False (Some ''Contains inappropriate content'')"

definition timeoutApi :: ModerationApi where
  "timeoutApi content uid = ApiTimeout"

subsection \<open>JavaScript values\<close>

text \<open>
  What a JavaScript expression of documented type \<open>'a\<close> may evaluate to: \<^verbatim>\<open>undefined\<close>,
  \<^verbatim>\<open>null\<close> or an object. An \<^verbatim>\<open>async\<close> function returns a promise, fulfilled with the
  value the body returns or rejected with what it throws. Objects are truthy,
  \<^verbatim>\<open>undefined\<close> and \<^verbatim>\<open>null\<close> are falsy.
\<close>

datatype 'a js = Undefined | Null | Obj 'a

datatype jsError = TypeError | Error string

datatype 'a promise = Fulfilled 'a | Rejected jsError

fun truthy :: "'a js \<Rightarrow> bool" where
  "truthy Undefined = False"
| "truthy Null = False"
| "truthy (Obj x) = True"

text \<open>A point in time: milliseconds since the epoch.\<close>

type_synonym Time = int

subsection \<open>\<^verbatim>\<open>template.js\<close>: \<^verbatim>\<open>ModerationResponse\<close> and \<^verbatim>\<open>AvatarJob\<close>\<close>

record ModerationResponse =
  isApproved :: bool
  reason :: "string option"

text \<open>
  The statuses the constructor's documentation lists:
  \<^verbatim>\<open>@param {string} status - Job status: pending, completed, failed, rejected\<close>.
\<close>

definition jobStatuses :: "string list" where
  "jobStatuses = [''pending'', ''completed'', ''failed'', ''rejected'']"

record AvatarJob =
  id' :: string
  userId :: string
  status :: string
  inputData :: string
  outputUrl :: "string option"
  createdAt :: Time
  errorMessage :: "string option"

text \<open>
  \<^verbatim>\<open>constructor(id, userId, status, inputData, outputUrl = null, createdAt = null,
  errorMessage = null)\<close>. A \<^verbatim>\<open>null\<close> or omitted optional argument is \<open>None\<close>. The
  first argument \<open>now\<close> is what \<^verbatim>\<open>new Date()\<close> gives; a \<^verbatim>\<open>Date\<close> is an object, hence
  truthy, so \<^verbatim>\<open>createdAt || new Date()\<close> takes the clock exactly when \<^verbatim>\<open>createdAt\<close> is
  \<^verbatim>\<open>null\<close>.
\<close>

definition AvatarJob_constructor ::
  "Time \<Rightarrow> string \<Rightarrow> string \<Rightarrow> string \<Rightarrow> string \<Rightarrow> string option \<Rightarrow> Time option
    \<Rightarrow> string option \<Rightarrow> AvatarJob" where
  "AvatarJob_constructor now jid uid st inp out created err =
     \<lparr> id' = jid,
       userId = uid,
       status = st,
       inputData = inp,
       outputUrl = out,
       createdAt = (case created of Some d \<Rightarrow> d | None \<Rightarrow> now),
       errorMessage = err \<rparr>"

subsection \<open>\<^verbatim>\<open>template.js\<close>: \<^verbatim>\<open>AvatarProcessingService\<close>\<close>

text \<open>
  The service object has the two fields its constructor assigns. Storage and the HTTP
  client are a \<^verbatim>\<open>TODO\<close> there: the object holds no jobs.
\<close>

record AvatarProcessingService =
  moderationApiUrl :: string
  apiToken :: string

definition AvatarProcessingService_constructor ::
  "string \<Rightarrow> string \<Rightarrow> AvatarProcessingService" where
  "AvatarProcessingService_constructor url token =
     \<lparr> moderationApiUrl = url, apiToken = token \<rparr>"

text \<open>
  Every method takes the service object \<open>this\<close> and returns it beside its result, so that
  a change of the object would show. The bodies are a comment each; a JavaScript function
  whose body ends without \<^verbatim>\<open>return\<close> gives \<^verbatim>\<open>undefined\<close>.
\<close>

definition submitJob ::
  "ModerationApi \<Rightarrow> AvatarProcessingService \<Rightarrow> string \<Rightarrow> string
    \<Rightarrow> AvatarJob js promise \<times> AvatarProcessingService" where
  "submitJob api this uid inp = (Fulfilled Undefined, this)"

definition getJobStatus ::
  "AvatarProcessingService \<Rightarrow> string \<Rightarrow> AvatarJob js \<times> AvatarProcessingService" where
  "getJobStatus this jid = (Undefined, this)"

definition callModerationApi ::
  "ModerationApi \<Rightarrow> AvatarProcessingService \<Rightarrow> string \<Rightarrow> string
    \<Rightarrow> ModerationResponse js promise \<times> AvatarProcessingService" where
  "callModerationApi api this content uid = (Fulfilled Undefined, this)"

text \<open>\<^verbatim>\<open>_generateMockAvatarUrl(prompt)\<close>; an Isabelle name cannot start with an underscore.\<close>

definition generateMockAvatarUrl ::
  "AvatarProcessingService \<Rightarrow> string \<Rightarrow> string js \<times> AvatarProcessingService" where
  "generateMockAvatarUrl this prompt = (Undefined, this)"

text \<open>
  \<^verbatim>\<open>main()\<close>: submit a job, log its id and status, read it back, log what was read.
  Reading a property of \<^verbatim>\<open>undefined\<close> or \<^verbatim>\<open>null\<close> throws a \<^verbatim>\<open>TypeError\<close>. The result is
  the error that ends \<^verbatim>\<open>main\<close> or the lines it logged.
\<close>

definition main :: "ModerationApi \<Rightarrow> jsError + string list" where
  "main api =
     (let service = AvatarProcessingService_constructor
                      ''https://api.example.com'' ''your-api-token-here''
      in case submitJob api service ''user123'' ''A friendly robot avatar with blue eyes'' of
           (Rejected e, service1) \<Rightarrow> Inl e
         | (Fulfilled Undefined, service1) \<Rightarrow>
             Inl TypeError
         | (Fulfilled Null, service1) \<Rightarrow>
             Inl TypeError
         | (Fulfilled (Obj job), service1) \<Rightarrow>
             (case getJobStatus service1 (id' job) of
                (retrievedJob, service2) \<Rightarrow>
                  Inr [''Job submitted: '' @ id' job @ '', Status: '' @ status job,
                       ''Retrieved job status: '' @
                         (case retrievedJob of
                            Obj found \<Rightarrow> status found
                          | _ \<Rightarrow> ''Not found'')]))"

subsection \<open>\<^verbatim>\<open>template.go\<close>\<close>

text \<open>
  A pointer is an \<open>option\<close> (\<^verbatim>\<open>nil\<close> is \<open>None\<close>), and so is an \<^verbatim>\<open>error\<close>, read as its
  message. The struct tags of \<^verbatim>\<open>ModerationResponse\<close> are kept as a table: field name,
  JSON key.
\<close>

record ModerationResponse_go =
  IsApproved :: bool
  Reason :: string

definition ModerationResponse_go_tags :: "(string \<times> string) list" where
  "ModerationResponse_go_tags = [(''IsApproved'', ''is_approved''), (''Reason'', ''reason'')]"

record AvatarJob_go =
  ID :: string
  UserID :: string
  Status :: string
  InputData :: string
  OutputURL :: "string option"
  CreatedAt :: Time
  ErrorMessage :: "string option"

text \<open>\<^verbatim>\<open>NewAvatarJob(id, userID, status, inputData)\<close>; \<open>now\<close> is what \<^verbatim>\<open>time.Now()\<close> gives.\<close>

definition NewAvatarJob ::
  "Time \<Rightarrow> string \<Rightarrow> string \<Rightarrow> string \<Rightarrow> string \<Rightarrow> AvatarJob_go" where
  "NewAvatarJob now jid uid st inp =
     \<lparr> ID = jid,
       UserID = uid,
       Status = st,
       InputData = inp,
       OutputURL = None,
       CreatedAt = now,
       ErrorMessage = None \<rparr>"

record AvatarProcessingService_go =
  moderationAPIURL :: string
  apiToken_go :: string

definition NewAvatarProcessingService ::
  "string \<Rightarrow> string \<Rightarrow> AvatarProcessingService_go" where
  "NewAvatarProcessingService url token =
     \<lparr> moderationAPIURL = url, apiToken_go = token \<rparr>"

definition SubmitJob ::
  "ModerationApi \<Rightarrow> AvatarProcessingService_go \<Rightarrow> string \<Rightarrow> string
    \<Rightarrow> (AvatarJob_go option \<times> string option) \<times> AvatarProcessingService_go" where
  "SubmitJob api s uid inp = ((None, None), s)"

definition GetJobStatus ::
  "AvatarProcessingService_go \<Rightarrow> string
    \<Rightarrow> (AvatarJob_go option \<times> string option) \<times> AvatarProcessingService_go" where
  "GetJobStatus s jid = ((None, None), s)"

definition CallModerationAPI ::
  "ModerationApi \<Rightarrow> AvatarProcessingService_go \<Rightarrow> string \<Rightarrow> string
    \<Rightarrow> (ModerationResponse_go option \<times> string option) \<times> AvatarProcessingService_go" where
  "CallModerationAPI api s content uid = ((None, None), s)"

definition generateMockAvatarURL ::
  "AvatarProcessingService_go \<Rightarrow> string \<Rightarrow> string \<times> AvatarProcessingService_go" where
  "generateMockAvatarURL s prompt = ('''', s)"

text \<open>
  \<^verbatim>\<open>func main()\<close>: a non-nil \<^verbatim>\<open>err\<close> panics with it; reading a field through a \<^verbatim>\<open>nil\<close>
  pointer panics with a nil dereference. The result is the panic or the lines printed.
\<close>

datatype goPanic = PanicError string | NilPointerDereference

definition main_go :: "ModerationApi \<Rightarrow> goPanic + string list" where
  "main_go api =
     (let service = NewAvatarProcessingService
                      ''https://api.example.com'' ''your-api-token-here''
      in case SubmitJob api service ''user123'' ''A friendly robot avatar with blue eyes'' of
           ((job, Some e), service1) \<Rightarrow> Inl (PanicError e)
         | ((None, None), service1) \<Rightarrow> Inl NilPointerDereference
         | ((Some job, None), service1) \<Rightarrow>
             (case GetJobStatus service1 (ID job) of
                ((retrievedJob, Some e), service2) \<Rightarrow> Inl (PanicError e)
              | ((Some found, None), service2) \<Rightarrow>
                  Inr [''Job submitted: '' @ ID job @ '' Status: '' @ Status job,
                       ''Retrieved job status: '' @ Status found]
              | ((None, None), service2) \<Rightarrow>
                  Inr [''Job submitted: '' @ ID job @ '' Status: '' @ Status job,
                       ''Job not found'']))"

subsection \<open>Fixtures and predicates of the statements\<close>

text \<open>The service each \<^verbatim>\<open>main\<close> constructs.\<close>

definition exampleService :: AvatarProcessingService where
  "exampleService =
     AvatarProcessingService_constructor ''https://api.example.com'' ''your-api-token-here''"

definition exampleService_go :: AvatarProcessingService_go where
  "exampleService_go =
     NewAvatarProcessingService ''https://api.example.com'' ''your-api-token-here''"

text \<open>A call of an \<^verbatim>\<open>async\<close> function fails when its promise is rejected.\<close>

fun rejected :: "'a promise \<Rightarrow> bool" where
  "rejected (Rejected e) = True"
| "rejected (Fulfilled v) = False"

section \<open>What the methods return\<close>

lemma submitJob_returns_undefined:
  "submitJob api this uid inp = (Fulfilled Undefined, this)"
  by (simp add: submitJob_def)

lemma SubmitJob_returns_nil:
  "SubmitJob api s uid inp = ((None, None), s)"
  by (simp add: SubmitJob_def)

lemma getJobStatus_returns_undefined:
  "getJobStatus this jid = (Undefined, this)"
  by (simp add: getJobStatus_def)

lemma GetJobStatus_returns_nil:
  "GetJobStatus s jid = ((None, None), s)"
  by (simp add: GetJobStatus_def)

lemma callModerationApi_returns_undefined:
  "callModerationApi api this content uid = (Fulfilled Undefined, this)"
  by (simp add: callModerationApi_def)

lemma CallModerationAPI_returns_nil:
  "CallModerationAPI api s content uid = ((None, None), s)"
  by (simp add: CallModerationAPI_def)

text \<open>
  No method of either template returns a job, whatever it is called with: the only
  expressions of the repository that build one are the two constructors.
\<close>

lemma methods_return_no_job:
  "fst (submitJob api this uid inp) \<noteq> Fulfilled (Obj job)"
  "fst (getJobStatus this jid) \<noteq> Obj job"
  "fst (fst (SubmitJob api s uid inp)) \<noteq> Some job_go"
  "fst (fst (GetJobStatus s jid)) \<noteq> Some job_go"
  by (simp_all add: submitJob_def getJobStatus_def SubmitJob_def GetJobStatus_def)

text \<open>
  The constructors store the status beside whatever optional fields they are given and
  relate the two in no way: a job of status \<^verbatim>\<open>completed\<close> without an output URL, and one
  of status \<^verbatim>\<open>failed\<close> without an error message.
\<close>

lemma constructor_relates_no_fields:
  "status (AvatarJob_constructor now ''j1'' ''u1'' ''completed'' ''p'' None None None)
     = ''completed''"
  "outputUrl (AvatarJob_constructor now ''j1'' ''u1'' ''completed'' ''p'' None None None)
     = None"
  "Status (NewAvatarJob now ''j1'' ''u1'' ''failed'' ''p'') = ''failed''"
  "ErrorMessage (NewAvatarJob now ''j1'' ''u1'' ''failed'' ''p'') = None"
  by (simp_all add: AvatarJob_constructor_def NewAvatarJob_def)

section \<open>The claims\<close>

text \<open>
  C1. The claim: for every valid submission on which the moderation endpoint answers,
  submit returns a job whose status is \<^verbatim>\<open>completed\<close> when the answer approves and
  \<^verbatim>\<open>rejected\<close>, with the reason as error message, when it does not. The templates do
  otherwise. For the submission \<^verbatim>\<open>("u1", "friendly robot")\<close> and either answer of the
  problem statement, the JavaScript promise is fulfilled with \<^verbatim>\<open>undefined\<close> and Go
  returns \<^verbatim>\<open>nil, nil\<close>: there is no job whose status could follow the verdict.
\<close>

theorem C1_submit_returns_no_job_for_either_verdict:
  "fst (submitJob approvingApi this ''u1'' ''friendly robot'') = Fulfilled Undefined
   \<and> fst (submitJob rejectingApi this ''u1'' ''friendly robot'') = Fulfilled Undefined
   \<and> fst (SubmitJob approvingApi s ''u1'' ''friendly robot'') = (None, None)
   \<and> fst (SubmitJob rejectingApi s ''u1'' ''friendly robot'') = (None, None)"
  by (simp add: submitJob_def SubmitJob_def)

text \<open>
  C2. The claim: when the call of the moderation endpoint fails, submit still returns
  normally and the job it returns has status \<^verbatim>\<open>failed\<close> and a non-empty error message.
  With an endpoint that times out, both templates do return normally (the promise is
  not rejected, the Go error is \<^verbatim>\<open>nil\<close>), but what they return is \<^verbatim>\<open>undefined\<close> and
  \<^verbatim>\<open>nil\<close>: no job, so no status \<^verbatim>\<open>failed\<close> and no error message.
\<close>

theorem C2_submit_returns_no_failed_job_on_timeout:
  "fst (submitJob timeoutApi this ''u1'' ''friendly robot'') = Fulfilled Undefined
   \<and> \<not> rejected (fst (submitJob timeoutApi this ''u1'' ''friendly robot''))
   \<and> fst (SubmitJob timeoutApi s ''u1'' ''friendly robot'') = (None, None)"
  by (simp add: submitJob_def SubmitJob_def)

text \<open>
  C3, as stated: a submission whose user id or input is the empty string fails with
  \<^verbatim>\<open>InvalidArgument\<close>. It does not: for \<^verbatim>\<open>submit("", "prompt")\<close> and
  \<^verbatim>\<open>submit("user1", "")\<close> the JavaScript promise is not rejected and the Go error is
  \<^verbatim>\<open>nil\<close>. Neither template checks an argument or defines such an error.
\<close>

theorem C3_empty_argument_raises_nothing:
  "\<not> rejected (fst (submitJob approvingApi exampleService [] ''prompt''))
   \<and> \<not> rejected (fst (submitJob approvingApi exampleService ''user1'' []))
   \<and> snd (fst (SubmitJob approvingApi exampleService_go [] ''prompt'')) = None
   \<and> snd (fst (SubmitJob approvingApi exampleService_go ''user1'' [])) = None"
  by (simp add: submitJob_def SubmitJob_def)

text \<open>
  C3, amended: a submission whose user id is the empty string, and one whose input is
  the empty string, is not refused: the call does not fail, whatever the other argument,
  the service and the endpoint are. The statement is about the refusal only; it says
  nothing of the job such a submission gives.
\<close>

theorem C3_empty_argument_is_not_refused:
  "\<not> rejected (fst (submitJob api this [] inp))
   \<and> \<not> rejected (fst (submitJob api this uid []))
   \<and> snd (fst (SubmitJob api s [] inp)) = None
   \<and> snd (fst (SubmitJob api s uid [])) = None"
  by (simp add: submitJob_def SubmitJob_def)

text \<open>
  C4. The claim: reading the status of \<^verbatim>\<open>job.id\<close> right after submit gives a job equal
  in every field to the one submit returned. Each template's \<^verbatim>\<open>main\<close> runs exactly this
  sequence, and for every behaviour of the endpoint it ends in an error before the
  read: submit has returned no job, so \<^verbatim>\<open>job.id\<close> throws a \<^verbatim>\<open>TypeError\<close> in JavaScript
  and \<^verbatim>\<open>job.ID\<close> dereferences \<^verbatim>\<open>nil\<close> in Go.
\<close>

theorem C4_main_fails_reading_the_job_id:
  "main api = Inl TypeError
   \<and> main_go api = Inl NilPointerDereference"
  by (simp add: main_def main_go_def submitJob_def SubmitJob_def)

text \<open>
  C5. The service object stores no job, so every id is an unknown one. For every id the
  read returns what the callers take as not found and never a job: \<^verbatim>\<open>undefined\<close> in
  JavaScript, which is falsy (\<^verbatim>\<open>main\<close> prints \<^verbatim>\<open>Not found\<close> for a falsy result), and a
  \<^verbatim>\<open>nil\<close> job with a \<^verbatim>\<open>nil\<close> error in Go (\<^verbatim>\<open>main\<close> prints \<^verbatim>\<open>Job not found\<close>). The read
  has no side effect: the service object that comes back is the one that went in.
\<close>

theorem C5_getJobStatus_not_found_and_pure:
  "\<not> truthy (fst (getJobStatus this jid))
   \<and> (\<forall>job. fst (getJobStatus this jid) \<noteq> Obj job)
   \<and> snd (getJobStatus this jid) = this
   \<and> fst (GetJobStatus s jid) = (None, None)
   \<and> snd (GetJobStatus s jid) = s"
  by (simp add: getJobStatus_def GetJobStatus_def)

text \<open>
  C6. The claim: in every sequence of valid submissions each call returns a job whose id
  differs from the id of every job returned before. Two submissions in a row, the
  second on the service the first left, return \<^verbatim>\<open>undefined\<close> twice in JavaScript and
  \<^verbatim>\<open>nil\<close> twice in Go: no job, and no id, comes back from either.
\<close>

theorem C6_two_submissions_return_no_ids:
  "(case submitJob approvingApi this ''user1'' ''robot'' of
      (first, this1) \<Rightarrow>
        (case submitJob approvingApi this1 ''user2'' ''cat'' of
           (second, this2) \<Rightarrow> (first, second)))
     = (Fulfilled Undefined, Fulfilled Undefined)
   \<and> (case SubmitJob approvingApi s ''user1'' ''robot'' of
        (first, s1) \<Rightarrow>
          (case SubmitJob approvingApi s1 ''user2'' ''cat'' of
             (second, s2) \<Rightarrow> (fst first, fst second)))
     = (None, None)"
  by (simp add: submitJob_def SubmitJob_def)

text \<open>
  C8. The claim: a success response \<^verbatim>\<open>{approved, reason?}\<close> is parsed into a
  \<^verbatim>\<open>ModerationResponse\<close> with the same approval flag and reason. With the endpoint
  answering \<^verbatim>\<open>{"approved": true, "reason": "Content appears safe"}\<close> the moderation
  call of the JavaScript template is fulfilled with \<^verbatim>\<open>undefined\<close> and that of the Go
  template returns \<^verbatim>\<open>nil, nil\<close>: no \<^verbatim>\<open>ModerationResponse\<close> is produced. In the Go
  template, moreover, no field of the struct carries the JSON key \<^verbatim>\<open>approved\<close>.
\<close>

theorem C8_moderation_call_parses_nothing:
  "fst (callModerationApi approvingApi this ''friendly robot'' ''u1'') = Fulfilled Undefined
   \<and> fst (CallModerationAPI approvingApi s ''friendly robot'' ''u1'') = (None, None)
   \<and> ''approved'' \<notin> set (map snd ModerationResponse_go_tags)"
  by (simp add: callModerationApi_def CallModerationAPI_def ModerationResponse_go_tags_def)

text \<open>
  C9. The claim: the mock output reference is a deterministic function of the job id
  and contains the id. Called with the id \<^verbatim>\<open>job-123\<close>, the JavaScript template returns
  \<^verbatim>\<open>undefined\<close>, no string at all, and the Go template returns the empty string, which
  does not contain \<^verbatim>\<open>job-123\<close>.
\<close>

theorem C9_mock_url_does_not_contain_the_id:
  "fst (generateMockAvatarUrl this ''job-123'') = Undefined
   \<and> fst (generateMockAvatarURL s ''job-123'') = []
   \<and> \<not> sublist ''job-123'' (fst (generateMockAvatarURL s ''job-123''))"
  by (simp add: generateMockAvatarUrl_def generateMockAvatarURL_def)

text \<open>
  C10. For all arguments \<^verbatim>\<open>(id, userId, status, inputData)\<close> the constructors store the
  four values as given, whatever string the status is; they set the creation time to the
  current time (JavaScript: when none is passed, and to the one passed otherwise) and leave
  the output URL and the error message unset (JavaScript: unless passed, and then as
  passed). So a job whose status is none of \<^verbatim>\<open>pending\<close>, \<^verbatim>\<open>completed\<close>, \<^verbatim>\<open>failed\<close>,
  \<^verbatim>\<open>rejected\<close> can be built: \<^verbatim>\<open>archived\<close>.
\<close>

theorem C10_constructor_stores_any_status:
  "id' (AvatarJob_constructor now jid uid st inp None None None) = jid
   \<and> userId (AvatarJob_constructor now jid uid st inp None None None) = uid
   \<and> status (AvatarJob_constructor now jid uid st inp None None None) = st
   \<and> inputData (AvatarJob_constructor now jid uid st inp None None None) = inp
   \<and> createdAt (AvatarJob_constructor now jid uid st inp None None None) = now
   \<and> outputUrl (AvatarJob_constructor now jid uid st inp None None None) = None
   \<and> errorMessage (AvatarJob_constructor now jid uid st inp None None None) = None
   \<and> status (AvatarJob_constructor now jid uid st inp out created err) = st
   \<and> outputUrl (AvatarJob_constructor now jid uid st inp out created err) = out
   \<and> errorMessage (AvatarJob_constructor now jid uid st inp out created err) = err
   \<and> createdAt (AvatarJob_constructor now jid uid st inp out (Some d) err) = d
   \<and> createdAt (AvatarJob_constructor now jid uid st inp out None err) = now
   \<and> ID (NewAvatarJob now jid uid st inp) = jid
   \<and> UserID (NewAvatarJob now jid uid st inp) = uid
   \<and> Status (NewAvatarJob now jid uid st inp) = st
   \<and> InputData (NewAvatarJob now jid uid st inp) = inp
   \<and> CreatedAt (NewAvatarJob now jid uid st inp) = now
   \<and> OutputURL (NewAvatarJob now jid uid st inp) = None
   \<and> ErrorMessage (NewAvatarJob now jid uid st inp) = None
   \<and> ''archived'' \<notin> set jobStatuses
   \<and> status (AvatarJob_constructor now jid uid ''archived'' inp None None None) = ''archived''
   \<and> Status (NewAvatarJob now jid uid ''archived'' inp) = ''archived''"
  by (simp add: AvatarJob_constructor_def NewAvatarJob_def jobStatuses_def)

end
